theory Spec2Isabelle
  imports Main "HOL-Library.Word"
begin

section \<open>Shared data: machine integers, timestamps, errors\<close>

text \<open>
  Go's \<open>uint64\<close>, \<open>uint16\<close> and \<open>int8\<close> are words of that width; \<open>int8\<close> is read
  with \<open>sint\<close> where the source compares it.
\<close>

type_synonym uint64 = "64 word"
type_synonym uint16 = "16 word"
type_synonym int8 = "8 word"

text \<open>
  \<open>time.Time\<close> of the Go library, as its documentation describes it: an instant given by
  the seconds elapsed since January 1 of year 1, 00:00:00 UTC and the nanoseconds inside
  that second. The location pointer does not take part in \<open>IsZero\<close> or \<open>Unix\<close> and is
  left out. \<open>unixToInternal\<close> is the library's constant
  \<open>(1969*365 + 1969/4 - 1969/100 + 1969/400) * 86400\<close>.
\<close>

record Time =
  sec :: int
  nsec :: int

definition unixToInternal :: int where
  "unixToInternal = (1969 * 365 + 1969 div 4 - 1969 div 100 + 1969 div 400) * 86400"

definition IsZero :: "Time \<Rightarrow> bool" where
  "IsZero t = (sec t = 0 \<and> nsec t = 0)"

definition Unix :: "Time \<Rightarrow> int" where
  "Unix t = sec t - unixToInternal"

definition zeroTime :: Time where
  "zeroTime = \<lparr>sec = 0, nsec = 0\<rparr>"

text \<open>
  Modelled from the spec: the \<open>errors\<close> package (\<open>ThrowInternal\<close>,
  \<open>ThrowPreconditionFailed\<close>) is not among the sources. An error value records its kind
  (internal, precondition failed), the parent error it wraps (\<open>nil\<close> is \<open>None\<close>), its id
  and its message.
\<close>

datatype 'p CaosError =
    ThrowInternal "'p option" string string
  | ThrowPreconditionFailed "'p option" string string

section \<open>The projection record (package view)\<close>

text \<open>
  \<open>OrgMemberView\<close> of package \<open>view\<close>: the struct as declared. \<open>pq.StringArray\<close> is a
  \<open>[]string\<close>.
\<close>

record OrgMemberView =
  UserID :: string
  OrgID :: string
  UserName :: string
  Email :: string
  FirstName :: string
  LastName :: string
  Roles :: "string list"
  Sequence :: uint64
  CreationDate :: Time
  ChangeDate :: Time

text \<open>
  \<open>model.OrgMemberView\<close>, the domain model. Its declaration is not among the sources;
  the record has the ten fields that the two conversion functions read and write. The
  conversion from the model reads those ten fields only, so it is defined on every
  extension of the record. Both conversions take a pointer and read through it: the
  records here are the structs behind non-nil pointers.
\<close>

record model_OrgMemberView =
  model_UserID :: string
  model_OrgID :: string
  model_UserName :: string
  model_Email :: string
  model_FirstName :: string
  model_LastName :: string
  model_Roles :: "string list"
  model_Sequence :: uint64
  model_CreationDate :: Time
  model_ChangeDate :: Time

definition OrgMemberViewFromModel :: "'z model_OrgMemberView_scheme \<Rightarrow> OrgMemberView" where
  "OrgMemberViewFromModel member =
     \<lparr>UserID = model_UserID member,
      OrgID = model_OrgID member,
      UserName = model_UserName member,
      Email = model_Email member,
      FirstName = model_FirstName member,
      LastName = model_LastName member,
      Roles = model_Roles member,
      Sequence = model_Sequence member,
      CreationDate = model_CreationDate member,
      ChangeDate = model_ChangeDate member\<rparr>"

definition OrgMemberToModel :: "OrgMemberView \<Rightarrow> model_OrgMemberView" where
  "OrgMemberToModel member =
     \<lparr>model_UserID = UserID member,
      model_OrgID = OrgID member,
      model_UserName = UserName member,
      model_Email = Email member,
      model_FirstName = FirstName member,
      model_LastName = LastName member,
      model_Roles = Roles member,
      model_Sequence = Sequence member,
      model_CreationDate = CreationDate member,
      model_ChangeDate = ChangeDate member\<rparr>"

section \<open>The query builder (package eventstore)\<close>

type_synonym AggregateType = string
type_synonym EventType = string

text \<open>
  \<open>Columns\<close> is an \<open>int8\<close>; the constants are \<open>iota + 1\<close> onwards.
\<close>

type_synonym Columns = int8

definition ColumnsEvent :: Columns where
  "ColumnsEvent = 1"

definition ColumnsMaxSequence :: Columns where
  "ColumnsMaxSequence = 2"

definition ColumnsInstanceIDs :: Columns where
  "ColumnsInstanceIDs = 3"

definition columnsCount :: Columns where
  "columnsCount = 4"

definition Validate :: "Columns \<Rightarrow> 'p CaosError option" where
  "Validate c =
     (if sint c \<le> 0 \<or> sint c \<ge> sint columnsCount
      then Some (ThrowPreconditionFailed None ''REPOS-x8R35'' ''column out of range'')
      else None)"

text \<open>
  A sub-query. The back pointer \<open>builder\<close> (used by \<open>Or\<close> and \<open>Builder\<close> only) is left
  out; \<open>eventData\<close>, a \<open>map[string]interface{}\<close> that no matching function reads, is kept
  as a list of key and encoded value.
\<close>

record SearchQuery =
  aggregateTypes :: "AggregateType list"
  aggregateIDs :: "string list"
  eventTypes :: "EventType list"
  eventData :: "(string \<times> string) list"

text \<open>
  The builder. \<open>instanceID\<close> is a \<open>*string\<close>: \<open>None\<close> is \<open>nil\<close>. \<open>tx\<close> is a pointer,
  kept as an optional handle; \<open>positionAfter\<close> is a \<open>float64\<close>, kept as its 64 bits.
\<close>

record SearchQueryBuilder =
  columns :: Columns
  limit :: uint64
  offset :: uint16
  desc :: bool
  resourceOwner :: string
  instanceID :: "string option"
  editorUser :: string
  queries :: "SearchQuery list"
  tx :: "nat option"
  allowTimeTravel :: bool
  positionAfter :: "64 word"
  awaitOpenTransactions :: bool
  creationDateAfter :: Time
  creationDateBefore :: Time
  eventSequenceGreater :: uint64

text \<open>\<open>NewSearchQueryBuilder\<close>: every field but \<open>columns\<close> has Go's zero value.\<close>

definition NewSearchQueryBuilder :: "Columns \<Rightarrow> SearchQueryBuilder" where
  "NewSearchQueryBuilder cols =
     \<lparr>columns = cols, limit = 0, offset = 0, desc = False, resourceOwner = [],
      instanceID = None, editorUser = [], queries = [], tx = None,
      allowTimeTravel = False, positionAfter = 0, awaitOpenTransactions = False,
      creationDateAfter = zeroTime, creationDateBefore = zeroTime,
      eventSequenceGreater = 0\<rparr>"

definition CreationDateAfter :: "Time \<Rightarrow> SearchQueryBuilder \<Rightarrow> SearchQueryBuilder" where
  "CreationDateAfter creationDate builder =
     (if IsZero creationDate \<or> Unix creationDate = 0 then builder
      else builder\<lparr>creationDateAfter := creationDate\<rparr>)"

definition CreationDateBefore :: "Time \<Rightarrow> SearchQueryBuilder \<Rightarrow> SearchQueryBuilder" where
  "CreationDateBefore creationDate builder =
     (if IsZero creationDate \<or> Unix creationDate = 0 then builder
      else builder\<lparr>creationDateBefore := creationDate\<rparr>)"

text \<open>The setters the examples below use; each stores its argument and returns the builder.\<close>

definition Limit :: "uint64 \<Rightarrow> SearchQueryBuilder \<Rightarrow> SearchQueryBuilder" where
  "Limit l builder = builder\<lparr>limit := l\<rparr>"

definition Offset :: "uint16 \<Rightarrow> SearchQueryBuilder \<Rightarrow> SearchQueryBuilder" where
  "Offset off builder = builder\<lparr>offset := off\<rparr>"

definition InstanceID :: "string \<Rightarrow> SearchQueryBuilder \<Rightarrow> SearchQueryBuilder" where
  "InstanceID iid builder = builder\<lparr>instanceID := Some iid\<rparr>"

definition SequenceGreater :: "uint64 \<Rightarrow> SearchQueryBuilder \<Rightarrow> SearchQueryBuilder" where
  "SequenceGreater sequence builder = builder\<lparr>eventSequenceGreater := sequence\<rparr>"

section \<open>The matching engine (package eventstore)\<close>

text \<open>
  The \<open>Aggregate\<close> struct and the \<open>Command\<close> interface are declared outside the sources.
  A command is what the matching functions ask of it: \<open>Aggregate()\<close>, \<open>Type()\<close> and, when
  the command also implements \<open>sequencer\<close>, \<open>Sequence()\<close> (\<open>None\<close> when the type
  assertion \<open>command.(sequencer)\<close> fails).
\<close>

record Aggregate =
  agg_ID :: string
  agg_Type :: AggregateType
  agg_ResourceOwner :: string
  agg_InstanceID :: string

record Command =
  cmd_Aggregate :: Aggregate
  cmd_Type :: EventType
  cmd_Sequence :: "uint64 option"

text \<open>
  Modelled from the spec: \<open>isAggregateTypes\<close>, \<open>isAggregateIDs\<close> and \<open>isEventTypes\<close> are
  called by \<open>SearchQuery.matches\<close> and are not among the sources. Following the spec
  (a filter matches when it holds the command's value), each one tells whether the list
  holds the aggregate's type, the aggregate's id, or the command's event type.
\<close>

definition isAggregateTypes :: "Aggregate \<Rightarrow> AggregateType list \<Rightarrow> bool" where
  "isAggregateTypes a types = (agg_Type a \<in> set types)"

definition isAggregateIDs :: "Aggregate \<Rightarrow> string list \<Rightarrow> bool" where
  "isAggregateIDs a ids = (agg_ID a \<in> set ids)"

definition isEventTypes :: "Command \<Rightarrow> EventType list \<Rightarrow> bool" where
  "isEventTypes command types = (cmd_Type command \<in> set types)"

definition matches :: "SearchQuery \<Rightarrow> Command \<Rightarrow> bool" where
  "matches query command =
     (if aggregateTypes query \<noteq> []
          \<and> \<not> isAggregateTypes (cmd_Aggregate command) (aggregateTypes query) then False
      else if aggregateIDs query \<noteq> []
          \<and> \<not> isAggregateIDs (cmd_Aggregate command) (aggregateIDs query) then False
      else if eventTypes query \<noteq> []
          \<and> \<not> isEventTypes command (eventTypes query) then False
      else True)"

text \<open>The loop over \<open>builder.queries\<close> at the end of \<open>matchCommand\<close>.\<close>

fun queries_loop :: "SearchQuery list \<Rightarrow> Command \<Rightarrow> bool" where
  "queries_loop [] command = False"
| "queries_loop (query # rest) command =
     (if matches query command then True else queries_loop rest command)"

definition matchCommand :: "SearchQueryBuilder \<Rightarrow> Command \<Rightarrow> bool" where
  "matchCommand builder command =
     (if resourceOwner builder \<noteq> []
          \<and> agg_ResourceOwner (cmd_Aggregate command) \<noteq> resourceOwner builder then False
      else if agg_InstanceID (cmd_Aggregate command) \<noteq> []
          \<and> (case instanceID builder of
                None \<Rightarrow> False
              | Some iid \<Rightarrow> iid \<noteq> [] \<and> agg_InstanceID (cmd_Aggregate command) \<noteq> iid)
        then False
      else if (case cmd_Sequence command of
                None \<Rightarrow> False
              | Some seq \<Rightarrow> 0 < eventSequenceGreater builder
                            \<and> seq \<le> eventSequenceGreater builder)
        then False
      else if queries builder = [] then True
      else queries_loop (queries builder) command)"

text \<open>
  The loop of \<open>Matches\<close>: \<open>i\<close> is the index of the command at the head of the list,
  \<open>found\<close> the slice \<open>matches\<close> built so far. \<open>uint16(i)\<close> keeps the low 16 bits of the
  index and \<open>uint64(len(matches))\<close> the low 64 bits of the length.
\<close>

fun Matches_loop ::
  "SearchQueryBuilder \<Rightarrow> nat \<Rightarrow> Command list \<Rightarrow> Command list \<Rightarrow> Command list" where
  "Matches_loop builder i [] found = found"
| "Matches_loop builder i (command # rest) found =
     (if 0 < limit builder \<and> limit builder \<le> (of_nat (length found) :: uint64) then found
      else if 0 < offset builder \<and> (of_nat i :: uint16) < offset builder
        then Matches_loop builder (Suc i) rest found
      else if matchCommand builder command
        then Matches_loop builder (Suc i) rest (found @ [command])
      else Matches_loop builder (Suc i) rest found)"

definition Matches :: "SearchQueryBuilder \<Rightarrow> Command list \<Rightarrow> Command list" where
  "Matches builder commands = Matches_loop builder 0 commands []"

text \<open>At most \<open>limit\<close> entries of a list; \<open>limit = 0\<close> keeps all.\<close>

definition keep_limit :: "uint64 \<Rightarrow> 'a list \<Rightarrow> 'a list" where
  "keep_limit l xs = (if 0 < l then take (unat l) xs else xs)"

text \<open>
  The reading of \<open>Matches\<close> in the spec's words, for comparison with the loop: filter
  first, then skip \<open>offset\<close> of the matching commands, then keep at most \<open>limit\<close> of them.
\<close>

definition Matches_filtered_order :: "SearchQueryBuilder \<Rightarrow> Command list \<Rightarrow> Command list" where
  "Matches_filtered_order builder commands =
     keep_limit (limit builder)
       (drop (unat (offset builder)) (filter (matchCommand builder) commands))"

text \<open>
  The three top-level gates in the spec's words (steps 1 to 3 of the matching contract):
  the \<open>resourceOwner\<close> filter, if set, equals the command's; the \<open>instanceID\<close> filter, if
  set and non-empty, equals the command's unless the command's is empty; a command with
  a sequence is strictly above \<open>eventSequenceGreater\<close>, if that is set.
\<close>

definition passes_gates :: "SearchQueryBuilder \<Rightarrow> Command \<Rightarrow> bool" where
  "passes_gates builder command =
     ((resourceOwner builder = []
         \<or> agg_ResourceOwner (cmd_Aggregate command) = resourceOwner builder)
      \<and> (case instanceID builder of
            None \<Rightarrow> True
          | Some iid \<Rightarrow> iid = [] \<or> agg_InstanceID (cmd_Aggregate command) = []
                          \<or> agg_InstanceID (cmd_Aggregate command) = iid)
      \<and> (case cmd_Sequence command of
            None \<Rightarrow> True
          | Some seq \<Rightarrow> eventSequenceGreater builder = 0
                          \<or> eventSequenceGreater builder < seq))"

section \<open>The projection updater (package view)\<close>

text \<open>
  \<open>models.Event\<close> is declared outside the sources; the record has the fields that
  \<open>AppendEvent\<close> reads. \<open>Data\<close> is a byte slice.
\<close>

record Event =
  Event_Sequence :: uint64
  Event_CreationDate :: Time
  Event_Type :: EventType
  Event_AggregateID :: string
  Event_Data :: string

text \<open>
  What \<open>json.Unmarshal(event.Data, r)\<close> can write in an \<open>OrgMemberView\<close>: the two fields
  with a JSON name, \<open>userId\<close> and \<open>roles\<close>. Every other field is tagged \<open>json:"-"\<close> and is
  never touched by the decoder.
\<close>

record json_fields =
  json_userId :: string
  json_roles :: "string list"

text \<open>
  What \<open>AppendEvent\<close> takes from outside the sources: the two event type constants of
  \<open>es_model\<close>, and the JSON decoder of the Go library. The decoder maps the payload and
  the current values of the two fields to the error it returns (\<open>None\<close> is \<open>nil\<close>) and the
  values it leaves in the two fields.
\<close>

record 'd external =
  OrgMemberAdded :: EventType
  OrgMemberChanged :: EventType
  json_Unmarshal :: "string \<Rightarrow> json_fields \<Rightarrow> 'd option \<times> json_fields"

definition setRootData :: "OrgMemberView \<Rightarrow> Event \<Rightarrow> OrgMemberView" where
  "setRootData r event = r\<lparr>OrgID := Event_AggregateID event\<rparr>"

text \<open>The call \<open>logging.Log(...).Error(...)\<close> writes a log line and is left out.\<close>

definition SetData ::
  "'d external \<Rightarrow> OrgMemberView \<Rightarrow> Event \<Rightarrow> 'd CaosError option \<times> OrgMemberView" where
  "SetData ext r event =
     (case json_Unmarshal ext (Event_Data event)
             \<lparr>json_userId = UserID r, json_roles = Roles r\<rparr> of
        (Some err, jf) \<Rightarrow>
          (Some (ThrowInternal (Some err) ''MODEL-lub6s'' ''Could not unmarshal data''),
           r\<lparr>UserID := json_userId jf, Roles := json_roles jf\<rparr>)
      | (None, jf) \<Rightarrow> (None, r\<lparr>UserID := json_userId jf, Roles := json_roles jf\<rparr>))"

definition AppendEvent ::
  "'d external \<Rightarrow> OrgMemberView \<Rightarrow> Event \<Rightarrow> 'd CaosError option \<times> OrgMemberView" where
  "AppendEvent ext r event =
     (let r1 = r\<lparr>Sequence := Event_Sequence event\<rparr>;
          r2 = r1\<lparr>ChangeDate := Event_CreationDate event\<rparr>
      in if Event_Type event = OrgMemberAdded ext then
           (let r3 = setRootData r2 event;
                r4 = r3\<lparr>CreationDate := Event_CreationDate event\<rparr>
            in SetData ext r4 event)
         else if Event_Type event = OrgMemberChanged ext then SetData ext r2 event
         else (None, r2))"

text \<open>
  The seven fields of the record that are not its watermark (\<open>Sequence\<close>) or its dates.
\<close>

definition business_fields ::
  "OrgMemberView \<Rightarrow> string \<times> string \<times> string \<times> string \<times> string \<times> string \<times> string list" where
  "business_fields r =
     (UserID r, OrgID r, UserName r, Email r, FirstName r, LastName r, Roles r)"

section \<open>The append-and-reduce protocol (package command)\<close>

text \<open>
  The interfaces \<open>AppendReducer\<close>, \<open>eventstore.QueryReducer\<close> and \<open>existsWriteModel\<close>, each
  extending the one before as in the source: the methods of an implementation over its
  state \<open>'s\<close>. \<open>AppendEvents\<close> and \<open>Reduce\<close> update the object; \<open>Query\<close> and \<open>Exists\<close> read
  it. An \<open>error\<close> result is an option, \<open>None\<close> for \<open>nil\<close>.
\<close>

record ('s, 'ev, 'e) AppendReducer =
  AppendEvents :: "'ev list \<Rightarrow> 's \<Rightarrow> 's"
  Reduce :: "'s \<Rightarrow> 'e option \<times> 's"

record ('s, 'ev, 'e) QueryReducer = "('s, 'ev, 'e) AppendReducer" +
  Query :: "'s \<Rightarrow> SearchQueryBuilder"

record ('s, 'ev, 'e) existsWriteModel = "('s, 'ev, 'e) QueryReducer" +
  Exists :: "'s \<Rightarrow> bool"

definition AppendAndReduce ::
  "('s, 'ev, 'e, 'z) AppendReducer_scheme \<Rightarrow> 's \<Rightarrow> 'ev list \<Rightarrow> 'e option \<times> 's" where
  "AppendAndReduce impl object events = Reduce impl (AppendEvents impl events object)"

text \<open>
  \<open>c.eventstore.Push\<close> is the store's transactional append: from the store's state and the
  commands it gives the events or an error, and the store's next state. Threading the
  store's state shows how many times the store was called.
\<close>

definition pushAppendAndReduce ::
  "('st \<Rightarrow> 'cmd list \<Rightarrow> ('e + 'ev list) \<times> 'st) \<Rightarrow> ('s, 'ev, 'e, 'z) AppendReducer_scheme
     \<Rightarrow> 'st \<Rightarrow> 's \<Rightarrow> 'cmd list \<Rightarrow> ('e option \<times> 's) \<times> 'st" where
  "pushAppendAndReduce Push impl store object cmds =
     (case Push store cmds of
        (Inl err, store') \<Rightarrow> ((Some err, object), store')
      | (Inr events, store') \<Rightarrow> (AppendAndReduce impl object events, store'))"

text \<open>
  \<open>preparation.FilterToQueryReducer\<close>: the store's query executor, from the query to the
  events or an error.
\<close>

definition queryAndReduce ::
  "(SearchQueryBuilder \<Rightarrow> 'e + 'ev list) \<Rightarrow> ('s, 'ev, 'e, 'z) QueryReducer_scheme
     \<Rightarrow> 's \<Rightarrow> 'e option \<times> 's" where
  "queryAndReduce filter_fn impl wm =
     (case filter_fn (Query impl wm) of
        Inl err \<Rightarrow> (Some err, wm)
      | Inr events \<Rightarrow>
          if length events = 0 then (None, wm)
          else Reduce impl (AppendEvents impl events wm))"

definition exists ::
  "(SearchQueryBuilder \<Rightarrow> 'e + 'ev list) \<Rightarrow> ('s, 'ev, 'e, 'z) existsWriteModel_scheme
     \<Rightarrow> 's \<Rightarrow> (bool \<times> 'e option) \<times> 's" where
  "exists filter_fn impl wm =
     (case queryAndReduce filter_fn impl wm of
        (Some err, wm') \<Rightarrow> ((False, Some err), wm')
      | (None, wm') \<Rightarrow> ((Exists impl wm', None), wm'))"

subsection \<open>A sample write model\<close>

text \<open>
  The write models of the repository are not among the sources. To run the protocol on
  concrete input, here is one implementation of \<open>existsWriteModel\<close> in their manner: the
  model of one aggregate buffers the appended events, and \<open>Reduce\<close> folds the buffer
  (an "added" event for the model's own aggregate marks it as existing, a "removed" one
  as gone), empties it and returns \<open>nil\<close>.
\<close>

datatype sample_wm_event = SampleAdded string | SampleRemoved string

record sample_model =
  sm_AggregateID :: string
  sm_Events :: "sample_wm_event list"
  sm_Added :: bool

fun sample_apply :: "sample_model \<Rightarrow> sample_wm_event \<Rightarrow> sample_model" where
  "sample_apply wm (SampleAdded aid) =
     (if aid = sm_AggregateID wm then wm\<lparr>sm_Added := True\<rparr> else wm)"
| "sample_apply wm (SampleRemoved aid) =
     (if aid = sm_AggregateID wm then wm\<lparr>sm_Added := False\<rparr> else wm)"

definition sample_impl :: "(sample_model, sample_wm_event, string) existsWriteModel" where
  "sample_impl =
     \<lparr>AppendEvents = (\<lambda>events wm. wm\<lparr>sm_Events := sm_Events wm @ events\<rparr>),
      Reduce = (\<lambda>wm. (None, (foldl sample_apply wm (sm_Events wm))\<lparr>sm_Events := []\<rparr>)),
      Query = (\<lambda>wm. (NewSearchQueryBuilder ColumnsEvent)
                 \<lparr>queries := [\<lparr>aggregateTypes = [''org''],
                               aggregateIDs = [sm_AggregateID wm],
                               eventTypes = [], eventData = []\<rparr>]\<rparr>),
      Exists = sm_Added\<rparr>"

definition sample_fresh :: "string \<Rightarrow> sample_model" where
  "sample_fresh aid = \<lparr>sm_AggregateID = aid, sm_Events = [], sm_Added = False\<rparr>"

text \<open>
  The same write model with a \<open>Reduce\<close> that folds the buffer as before and then returns
  an error.
\<close>

definition sample_impl_reduce_fails ::
  "(sample_model, sample_wm_event, string) existsWriteModel" where
  "sample_impl_reduce_fails =
     sample_impl\<lparr>Reduce := (\<lambda>wm. (Some ''reduce failed'', snd (Reduce sample_impl wm)))\<rparr>"

subsection \<open>Sample inputs\<close>

text \<open>
  Concrete sub-queries, commands, events and collaborators on which the results below
  are run. \<open>failing_external\<close> has the event type names of an organisation's member
  events and a decoder that rejects every payload without writing to its target, as the
  Go decoder does on a payload that is not well-formed JSON.
\<close>

definition sample_query ::
  "AggregateType list \<Rightarrow> string list \<Rightarrow> EventType list \<Rightarrow> SearchQuery" where
  "sample_query types ids etypes =
     \<lparr>aggregateTypes = types, aggregateIDs = ids, eventTypes = etypes, eventData = []\<rparr>"

definition sample_command ::
  "AggregateType \<Rightarrow> string \<Rightarrow> EventType \<Rightarrow> string \<Rightarrow> uint64 option \<Rightarrow> Command" where
  "sample_command typ aid etype inst seq =
     \<lparr>cmd_Aggregate = \<lparr>agg_ID = aid, agg_Type = typ, agg_ResourceOwner = ''ro'',
                       agg_InstanceID = inst\<rparr>,
      cmd_Type = etype, cmd_Sequence = seq\<rparr>"

definition sample_builder :: "uint16 \<Rightarrow> uint64 \<Rightarrow> SearchQuery list \<Rightarrow> SearchQueryBuilder" where
  "sample_builder off l qs = Limit l (Offset off ((NewSearchQueryBuilder ColumnsEvent)\<lparr>queries := qs\<rparr>))"

definition failing_external :: "string external" where
  "failing_external =
     \<lparr>OrgMemberAdded = ''org.member.added'', OrgMemberChanged = ''org.member.changed'',
      json_Unmarshal = (\<lambda>data target. (Some ''unexpected end of JSON input'', target))\<rparr>"

definition sample_view :: OrgMemberView where
  "sample_view =
     \<lparr>UserID = ''user-1'', OrgID = ''org-0'', UserName = ''name'', Email = ''mail'',
      FirstName = ''first'', LastName = ''last'', Roles = [''ORG_OWNER''], Sequence = 3,
      CreationDate = \<lparr>sec = 100, nsec = 0\<rparr>, ChangeDate = \<lparr>sec = 200, nsec = 0\<rparr>\<rparr>"

definition sample_event :: "EventType \<Rightarrow> Event" where
  "sample_event etype =
     \<lparr>Event_Sequence = 9, Event_CreationDate = \<lparr>sec = 300, nsec = 5\<rparr>, Event_Type = etype,
      Event_AggregateID = ''org-1'', Event_Data = ''{''\<rparr>"

section \<open>Column validation\<close>

lemma sint_int8_cases:
  fixes c :: int8
  assumes "0 < sint c" and "sint c < 4"
  shows "c = 1 \<or> c = 2 \<or> c = 3"
proof -
  have c: "word_of_int (sint c) = c" by simp
  from assms have "sint c = 1 \<or> sint c = 2 \<or> sint c = 3" by arith
  then show ?thesis
  proof (elim disjE)
    assume "sint c = 1"
    with c have "c = word_of_int 1" by simp
    then show ?thesis by simp
  next
    assume "sint c = 2"
    with c have "c = word_of_int 2" by simp
    then show ?thesis by simp
  next
    assume "sint c = 3"
    with c have "c = word_of_int 3" by simp
    then show ?thesis by simp
  qed
qed

text \<open>
  C9. \<open>Columns.Validate\<close> returns the precondition-failed error exactly when the value is
  outside \<open>{ColumnsEvent, ColumnsMaxSequence, ColumnsInstanceIDs}\<close>, that is when
  \<open>c <= 0\<close> or \<open>c >= columnsCount\<close> as signed 8-bit values, and \<open>nil\<close> otherwise.
\<close>

theorem Validate_range:
  "((Validate c :: 'p CaosError option)
        = Some (ThrowPreconditionFailed None ''REPOS-x8R35'' ''column out of range'')
      \<longleftrightarrow> c \<notin> {ColumnsEvent, ColumnsMaxSequence, ColumnsInstanceIDs})
   \<and> ((Validate c :: 'p CaosError option) = None
      \<longleftrightarrow> c \<in> {ColumnsEvent, ColumnsMaxSequence, ColumnsInstanceIDs})
   \<and> (c \<notin> {ColumnsEvent, ColumnsMaxSequence, ColumnsInstanceIDs}
      \<longleftrightarrow> sint c \<le> 0 \<or> sint c \<ge> sint columnsCount)"
proof -
  have in_range: "c \<in> {ColumnsEvent, ColumnsMaxSequence, ColumnsInstanceIDs}
      \<longleftrightarrow> 0 < sint c \<and> sint c < 4"
    using sint_int8_cases [of c]
    by (auto simp: ColumnsEvent_def ColumnsMaxSequence_def ColumnsInstanceIDs_def)
  have cnt: "sint columnsCount = 4"
    by (simp add: columnsCount_def)
  show ?thesis
    unfolding Validate_def cnt in_range by auto
qed

theorem Validate_range_witness:
  "Validate ColumnsEvent = (None :: unit CaosError option)
   \<and> Validate ColumnsInstanceIDs = (None :: unit CaosError option)
   \<and> Validate 0
       = Some (ThrowPreconditionFailed (None :: unit option) ''REPOS-x8R35'' ''column out of range'')
   \<and> Validate columnsCount
       = Some (ThrowPreconditionFailed (None :: unit option) ''REPOS-x8R35'' ''column out of range'')
   \<and> Validate (- 1)
       = Some (ThrowPreconditionFailed (None :: unit option) ''REPOS-x8R35'' ''column out of range'')"
  using Validate_range [of ColumnsEvent, where ?'p = unit]
    Validate_range [of ColumnsInstanceIDs, where ?'p = unit]
    Validate_range [of 0, where ?'p = unit]
    Validate_range [of columnsCount, where ?'p = unit]
    Validate_range [of "- 1", where ?'p = unit]
  by (simp add: ColumnsEvent_def ColumnsMaxSequence_def ColumnsInstanceIDs_def columnsCount_def)

section \<open>Conversions between the view record and the domain model\<close>

text \<open>
  C10. Converting an \<open>OrgMemberView\<close> to the domain model and back gives the record it
  started from, and the opposite composition gives back a domain model value: all ten
  fields (\<open>UserID\<close>, \<open>OrgID\<close>, \<open>UserName\<close>, \<open>Email\<close>, \<open>FirstName\<close>, \<open>LastName\<close>, \<open>Roles\<close>,
  \<open>Sequence\<close>, \<open>CreationDate\<close>, \<open>ChangeDate\<close>) are equal. For the domain model the ten
  equalities hold whatever else its declaration may hold (\<open>n\<close>).
\<close>

theorem OrgMemberView_roundtrip:
  fixes v :: OrgMemberView and m :: model_OrgMemberView and n :: "'z model_OrgMemberView_scheme"
  shows "OrgMemberViewFromModel (OrgMemberToModel v) = v
    \<and> OrgMemberToModel (OrgMemberViewFromModel m) = m
    \<and> model_UserID (OrgMemberToModel (OrgMemberViewFromModel n)) = model_UserID n
    \<and> model_OrgID (OrgMemberToModel (OrgMemberViewFromModel n)) = model_OrgID n
    \<and> model_UserName (OrgMemberToModel (OrgMemberViewFromModel n)) = model_UserName n
    \<and> model_Email (OrgMemberToModel (OrgMemberViewFromModel n)) = model_Email n
    \<and> model_FirstName (OrgMemberToModel (OrgMemberViewFromModel n)) = model_FirstName n
    \<and> model_LastName (OrgMemberToModel (OrgMemberViewFromModel n)) = model_LastName n
    \<and> model_Roles (OrgMemberToModel (OrgMemberViewFromModel n)) = model_Roles n
    \<and> model_Sequence (OrgMemberToModel (OrgMemberViewFromModel n)) = model_Sequence n
    \<and> model_CreationDate (OrgMemberToModel (OrgMemberViewFromModel n)) = model_CreationDate n
    \<and> model_ChangeDate (OrgMemberToModel (OrgMemberViewFromModel n)) = model_ChangeDate n"
  by (simp add: OrgMemberViewFromModel_def OrgMemberToModel_def)

section \<open>The creation-date setters\<close>

text \<open>
  C8. \<open>CreationDateAfter\<close> and \<open>CreationDateBefore\<close>, called with a timestamp that is the
  zero value or whose \<open>Unix()\<close> is 0, return the builder as it was; with any other
  timestamp they return the builder with that one field set to the timestamp and every
  other field as it was.
\<close>

theorem CreationDate_zero_guard:
  "(IsZero t \<or> Unix t = 0 \<longrightarrow>
      CreationDateAfter t builder = builder \<and> CreationDateBefore t builder = builder)
   \<and> (\<not> (IsZero t \<or> Unix t = 0) \<longrightarrow>
      CreationDateAfter t builder = builder\<lparr>creationDateAfter := t\<rparr>
      \<and> CreationDateBefore t builder = builder\<lparr>creationDateBefore := t\<rparr>)"
  by (simp add: CreationDateAfter_def CreationDateBefore_def)

lemma unixToInternal_value: "unixToInternal = 62135596800"
  by (simp add: unixToInternal_def)

theorem CreationDate_zero_guard_witness:
  "IsZero zeroTime
   \<and> CreationDateAfter zeroTime (NewSearchQueryBuilder ColumnsEvent) = NewSearchQueryBuilder ColumnsEvent
   \<and> CreationDateBefore zeroTime (NewSearchQueryBuilder ColumnsEvent) = NewSearchQueryBuilder ColumnsEvent
   \<and> Unix \<lparr>sec = 62135596800, nsec = 7\<rparr> = 0
   \<and> CreationDateAfter \<lparr>sec = 62135596800, nsec = 7\<rparr> (NewSearchQueryBuilder ColumnsEvent)
       = NewSearchQueryBuilder ColumnsEvent
   \<and> creationDateAfter (CreationDateAfter \<lparr>sec = 62135596801, nsec = 0\<rparr> (NewSearchQueryBuilder ColumnsEvent))
       = \<lparr>sec = 62135596801, nsec = 0\<rparr>
   \<and> creationDateBefore (CreationDateBefore \<lparr>sec = 62135596801, nsec = 0\<rparr> (NewSearchQueryBuilder ColumnsEvent))
       = \<lparr>sec = 62135596801, nsec = 0\<rparr>"
  using CreationDate_zero_guard [of zeroTime "NewSearchQueryBuilder ColumnsEvent"]
    CreationDate_zero_guard [of "\<lparr>sec = 62135596800, nsec = 7\<rparr>" "NewSearchQueryBuilder ColumnsEvent"]
    CreationDate_zero_guard [of "\<lparr>sec = 62135596801, nsec = 0\<rparr>" "NewSearchQueryBuilder ColumnsEvent"]
  by (simp add: IsZero_def Unix_def zeroTime_def unixToInternal_value)

section \<open>Matching one command\<close>

lemma queries_loop_iff: "queries_loop qs command \<longleftrightarrow> (\<exists>q \<in> set qs. matches q command)"
  by (induction qs) auto

lemma matches_iff:
  "matches q command \<longleftrightarrow>
     (aggregateTypes q = [] \<or> agg_Type (cmd_Aggregate command) \<in> set (aggregateTypes q))
     \<and> (aggregateIDs q = [] \<or> agg_ID (cmd_Aggregate command) \<in> set (aggregateIDs q))
     \<and> (eventTypes q = [] \<or> cmd_Type command \<in> set (eventTypes q))"
  by (auto simp: matches_def isAggregateTypes_def isAggregateIDs_def isEventTypes_def)

lemma matchCommand_gates:
  "matchCommand builder command \<longleftrightarrow>
     passes_gates builder command
     \<and> (queries builder = [] \<or> queries_loop (queries builder) command)"
  by (auto simp: matchCommand_def passes_gates_def word_gt_0 not_le
      split: option.splits)

lemmas sample_defs = sample_query_def sample_command_def sample_builder_def Limit_def Offset_def
  NewSearchQueryBuilder_def InstanceID_def

text \<open>
  C3. For a command that gets past the \<open>resourceOwner\<close>, \<open>instanceID\<close> and sequence gates:
  with no sub-queries the command matches; otherwise it matches exactly when at least
  one sub-query matches it. A sub-query matches exactly when each of its non-empty
  filters (\<open>aggregateTypes\<close>, \<open>aggregateIDs\<close>, \<open>eventTypes\<close>) holds the command's value; an
  empty filter holds for every command.
\<close>

theorem matchCommand_or_and:
  assumes "passes_gates builder command"
  shows "(queries builder = [] \<longrightarrow> matchCommand builder command)
    \<and> (queries builder \<noteq> [] \<longrightarrow>
         (matchCommand builder command \<longleftrightarrow> (\<exists>q \<in> set (queries builder). matches q command)))
    \<and> (\<forall>q. matches q command \<longleftrightarrow>
         (aggregateTypes q = [] \<or> agg_Type (cmd_Aggregate command) \<in> set (aggregateTypes q))
         \<and> (aggregateIDs q = [] \<or> agg_ID (cmd_Aggregate command) \<in> set (aggregateIDs q))
         \<and> (eventTypes q = [] \<or> cmd_Type command \<in> set (eventTypes q)))"
proof (intro conjI allI impI)
  assume "queries builder = []"
  with assms show "matchCommand builder command"
    by (simp add: matchCommand_gates)
next
  assume "queries builder \<noteq> []"
  with assms show "matchCommand builder command
      \<longleftrightarrow> (\<exists>q \<in> set (queries builder). matches q command)"
    by (simp add: matchCommand_gates queries_loop_iff)
next
  fix q
  show "matches q command \<longleftrightarrow>
         (aggregateTypes q = [] \<or> agg_Type (cmd_Aggregate command) \<in> set (aggregateTypes q))
         \<and> (aggregateIDs q = [] \<or> agg_ID (cmd_Aggregate command) \<in> set (aggregateIDs q))
         \<and> (eventTypes q = [] \<or> cmd_Type command \<in> set (eventTypes q))"
    by (rule matches_iff)
qed

theorem matchCommand_or_and_witness:
  "passes_gates (sample_builder 0 0 [sample_query [''user''] [''u1''] [], sample_query [''org''] [] [''org.added'']])
      (sample_command ''org'' ''o1'' ''org.added'' [] None)
   \<and> matchCommand (sample_builder 0 0 [sample_query [''user''] [''u1''] [], sample_query [''org''] [] [''org.added'']])
      (sample_command ''org'' ''o1'' ''org.added'' [] None)
   \<and> \<not> matchCommand (sample_builder 0 0 [sample_query [''user''] [''u1''] [], sample_query [''org''] [] [''org.added'']])
      (sample_command ''project'' ''p1'' ''project.added'' [] None)
   \<and> \<not> matchCommand (sample_builder 0 0 [sample_query [''user''] [''u1''] [], sample_query [''org''] [] [''org.added'']])
      (sample_command ''user'' ''u2'' ''user.added'' [] None)
   \<and> matchCommand (sample_builder 0 0 []) (sample_command ''project'' ''p1'' ''project.added'' [] None)"
  using matchCommand_or_and [where builder = "sample_builder 0 0 [sample_query [''user''] [''u1''] [], sample_query [''org''] [] [''org.added'']]"
      and command = "sample_command ''org'' ''o1'' ''org.added'' [] None"]
    matchCommand_or_and [where builder = "sample_builder 0 0 [sample_query [''user''] [''u1''] [], sample_query [''org''] [] [''org.added'']]"
      and command = "sample_command ''project'' ''p1'' ''project.added'' [] None"]
    matchCommand_or_and [where builder = "sample_builder 0 0 [sample_query [''user''] [''u1''] [], sample_query [''org''] [] [''org.added'']]"
      and command = "sample_command ''user'' ''u2'' ''user.added'' [] None"]
    matchCommand_or_and [where builder = "sample_builder 0 0 []"
      and command = "sample_command ''project'' ''p1'' ''project.added'' [] None"]
  by (simp add: sample_defs passes_gates_def)

text \<open>
  C4. With the builder's \<open>instanceID\<close> set to a non-empty value, a command with an empty
  instance ID is not held back by that filter: it matches exactly as it would with no
  \<open>instanceID\<close> filter at all. A command with a non-empty instance ID other than the
  filter's does not match.
\<close>

theorem instanceID_gate:
  assumes "instanceID builder = Some iid" and "iid \<noteq> []"
  shows "(agg_InstanceID (cmd_Aggregate command) = [] \<longrightarrow>
            matchCommand builder command = matchCommand (builder\<lparr>instanceID := None\<rparr>) command)
    \<and> (agg_InstanceID (cmd_Aggregate command) \<noteq> []
          \<and> agg_InstanceID (cmd_Aggregate command) \<noteq> iid \<longrightarrow>
            \<not> matchCommand builder command)"
  using assms by (auto simp: matchCommand_def split: option.splits)

theorem instanceID_gate_witness:
  "instanceID (InstanceID ''tenant-x'' (NewSearchQueryBuilder ColumnsEvent)) = Some ''tenant-x''
   \<and> ''tenant-x'' \<noteq> []
   \<and> matchCommand (InstanceID ''tenant-x'' (NewSearchQueryBuilder ColumnsEvent))
        (sample_command ''org'' ''o1'' ''org.added'' [] None)
   \<and> \<not> matchCommand (InstanceID ''tenant-x'' (NewSearchQueryBuilder ColumnsEvent))
        (sample_command ''org'' ''o1'' ''org.added'' ''tenant-y'' None)"
  using instanceID_gate [where builder = "InstanceID ''tenant-x'' (NewSearchQueryBuilder ColumnsEvent)"
      and iid = "''tenant-x''" and command = "sample_command ''org'' ''o1'' ''org.added'' [] None"]
    instanceID_gate [where builder = "InstanceID ''tenant-x'' (NewSearchQueryBuilder ColumnsEvent)"
      and iid = "''tenant-x''" and command = "sample_command ''org'' ''o1'' ''org.added'' ''tenant-y'' None"]
  by (simp add: sample_defs matchCommand_def)

section \<open>Matching a list of commands\<close>

text \<open>
  The loop, from any index and any slice built so far, as long as the indices fit in 16
  bits and the slice has not outgrown the limit.
\<close>

lemma Matches_loop_char:
  assumes "i + length cs \<le> 65536" and "limit b = 0 \<or> length found \<le> unat (limit b)"
  shows "Matches_loop b i cs found =
           keep_limit (limit b) (found @ filter (matchCommand b) (drop (unat (offset b) - i) cs))"
  using assms
proof (induction cs arbitrary: i found)
  case Nil
  then show ?case by (auto simp: keep_limit_def word_gt_0)
next
  case (Cons c rest)
  have i16: "unat (of_nat i :: uint16) = i"
    using Cons.prems(1) by (simp add: unat_of_nat)
  have len64: "0 < limit b \<Longrightarrow> unat (of_nat (length found) :: uint64) = length found"
    using Cons.prems(2) by (auto simp: word_gt_0 le_unat_uoi)
  show ?case
  proof (cases "0 < limit b \<and> limit b \<le> (of_nat (length found) :: uint64)")
    case True
    then have "unat (limit b) \<le> length found"
      using len64 by (simp add: word_le_nat_alt)
    with True Cons.prems(2) have "length found = unat (limit b)"
      by (auto simp: word_gt_0)
    with True show ?thesis by (simp add: keep_limit_def)
  next
    case nobreak: False
    have room: "limit b = 0 \<or> length found < unat (limit b)"
    proof (cases "limit b = 0")
      case True
      then show ?thesis by simp
    next
      case False
      then have pos: "0 < limit b" by (simp add: word_gt_0)
      with nobreak have "\<not> limit b \<le> (of_nat (length found) :: uint64)" by simp
      then have "\<not> unat (limit b) \<le> length found"
        using len64 [OF pos] by (simp add: word_le_nat_alt)
      then show ?thesis by simp
    qed
    show ?thesis
    proof (cases "0 < offset b \<and> (of_nat i :: uint16) < offset b")
      case True
      then have lt: "i < unat (offset b)"
        using i16 by (simp add: word_less_nat_alt)
      then have "unat (offset b) - i = Suc (unat (offset b) - Suc i)"
        by arith
      then have d: "drop (unat (offset b) - i) (c # rest) = drop (unat (offset b) - Suc i) rest"
        by simp
      have "Matches_loop b i (c # rest) found = Matches_loop b (Suc i) rest found"
        using nobreak True by auto
      also have "\<dots> = keep_limit (limit b)
          (found @ filter (matchCommand b) (drop (unat (offset b) - Suc i) rest))"
        using Cons.prems by (intro Cons.IH) auto
      finally show ?thesis by (simp only: d)
    next
      case noskip: False
      then have ge: "unat (offset b) \<le> i"
        using i16 by (auto simp: word_less_nat_alt word_gt_0 unat_eq_0 not_less)
      then have d0: "unat (offset b) - i = 0" and d1: "unat (offset b) - Suc i = 0"
        by auto
      show ?thesis
      proof (cases "matchCommand b c")
        case True
        have "Matches_loop b i (c # rest) found = Matches_loop b (Suc i) rest (found @ [c])"
          using nobreak noskip True by auto
        also have "\<dots> = keep_limit (limit b)
            ((found @ [c]) @ filter (matchCommand b) (drop (unat (offset b) - Suc i) rest))"
          using Cons.prems room by (intro Cons.IH) auto
        finally show ?thesis using True by (simp add: d0 d1)
      next
        case False
        have "Matches_loop b i (c # rest) found = Matches_loop b (Suc i) rest found"
          using nobreak noskip False by auto
        also have "\<dots> = keep_limit (limit b)
            (found @ filter (matchCommand b) (drop (unat (offset b) - Suc i) rest))"
          using Cons.prems by (intro Cons.IH) auto
        finally show ?thesis using False by (simp add: d0 d1)
      qed
    qed
  qed
qed

text \<open>
  C1, as the code has it. For a list of at most 65536 commands (every index fits in the
  \<open>uint16\<close> it is converted to), \<open>Matches\<close> skips the commands at the first \<open>offset\<close>
  positions of the input, whether they match or not, keeps those of the remaining
  commands that match, in order, and with \<open>limit > 0\<close> stops at \<open>limit\<close> of them.
\<close>

theorem Matches_raw_offset:
  assumes "length commands \<le> 65536"
  shows "Matches builder commands =
           keep_limit (limit builder)
             (filter (matchCommand builder) (drop (unat (offset builder)) commands))"
  using assms Matches_loop_char [of 0 commands builder "[]"]
  by (simp add: Matches_def)

theorem Matches_raw_offset_witness:
  "length [sample_command ''T'' ''A'' ''e'' [] (Some 1), sample_command ''T'' ''B'' ''e'' [] (Some 2),
           sample_command ''T'' ''C'' ''e'' [] (Some 3)] \<le> 65536
   \<and> Matches (SequenceGreater 0 (sample_builder 1 2 [sample_query [''T''] [] []]))
        [sample_command ''T'' ''A'' ''e'' [] (Some 1), sample_command ''T'' ''B'' ''e'' [] (Some 2),
         sample_command ''T'' ''C'' ''e'' [] (Some 3)]
      = [sample_command ''T'' ''B'' ''e'' [] (Some 2), sample_command ''T'' ''C'' ''e'' [] (Some 3)]"
  using Matches_raw_offset [where builder = "SequenceGreater 0 (sample_builder 1 2 [sample_query [''T''] [] []])"
      and commands = "[sample_command ''T'' ''A'' ''e'' [] (Some 1), sample_command ''T'' ''B'' ''e'' [] (Some 2),
         sample_command ''T'' ''C'' ''e'' [] (Some 3)]"]
  by (simp add: sample_defs SequenceGreater_def keep_limit_def matchCommand_def matches_def
      isAggregateTypes_def)

text \<open>
  With \<open>offset = 1\<close>, an \<open>instanceID\<close> filter and a first command of another instance,
  the loop skips that first command, which does not match, and returns the second;
  skipping one of the matching commands would return nothing.
\<close>

theorem Matches_filtered_order_counterexample:
  "\<not> matchCommand (Offset 1 (InstanceID ''tenant-x'' (NewSearchQueryBuilder ColumnsEvent)))
        (sample_command ''T'' ''X'' ''e'' ''tenant-y'' None)
   \<and> matchCommand (Offset 1 (InstanceID ''tenant-x'' (NewSearchQueryBuilder ColumnsEvent)))
        (sample_command ''T'' ''A'' ''e'' ''tenant-x'' None)
   \<and> Matches (Offset 1 (InstanceID ''tenant-x'' (NewSearchQueryBuilder ColumnsEvent)))
        [sample_command ''T'' ''X'' ''e'' ''tenant-y'' None,
         sample_command ''T'' ''A'' ''e'' ''tenant-x'' None]
       = [sample_command ''T'' ''A'' ''e'' ''tenant-x'' None]
   \<and> Matches_filtered_order (Offset 1 (InstanceID ''tenant-x'' (NewSearchQueryBuilder ColumnsEvent)))
        [sample_command ''T'' ''X'' ''e'' ''tenant-y'' None,
         sample_command ''T'' ''A'' ''e'' ''tenant-x'' None]
       = []"
  by (simp add: sample_defs Matches_def Matches_filtered_order_def keep_limit_def matchCommand_def)

section \<open>The projection updater on a payload that does not decode\<close>

lemma SetData_failure:
  assumes "json_Unmarshal ext (Event_Data event) \<lparr>json_userId = UserID r, json_roles = Roles r\<rparr>
             = (Some err, jf)"
  shows "SetData ext r event =
           (Some (ThrowInternal (Some err) ''MODEL-lub6s'' ''Could not unmarshal data''),
            r\<lparr>UserID := json_userId jf, Roles := json_roles jf\<rparr>)"
  using assms by (simp add: SetData_def)

lemmas view_defs = failing_external_def sample_view_def sample_event_def

text \<open>
  C2, as the code has it. For an \<open>OrgMemberAdded\<close> or \<open>OrgMemberChanged\<close> event whose
  payload the decoder rejects, \<open>AppendEvent\<close> returns the internal error that wraps the
  decoder's error. Afterwards \<open>Sequence\<close> is the event's sequence and \<open>ChangeDate\<close> the
  event's creation date; \<open>UserName\<close>, \<open>Email\<close>, \<open>FirstName\<close> and \<open>LastName\<close> are as
  before; \<open>UserID\<close> and \<open>Roles\<close> hold what the decoder left in them. For
  \<open>OrgMemberAdded\<close>, \<open>OrgID\<close> is the event's aggregate ID and \<open>CreationDate\<close> the event's
  creation date; for \<open>OrgMemberChanged\<close> both are as before, and if the decoder wrote
  nothing then all seven business fields are as before.
\<close>

theorem AppendEvent_decode_failure:
  assumes "Event_Type event = OrgMemberAdded ext \<or> Event_Type event = OrgMemberChanged ext"
    and "json_Unmarshal ext (Event_Data event) \<lparr>json_userId = UserID r, json_roles = Roles r\<rparr>
           = (Some err, jf)"
    and "AppendEvent ext r event = (res, r')"
  shows "res = Some (ThrowInternal (Some err) ''MODEL-lub6s'' ''Could not unmarshal data'')
    \<and> Sequence r' = Event_Sequence event
    \<and> ChangeDate r' = Event_CreationDate event
    \<and> UserName r' = UserName r \<and> Email r' = Email r
    \<and> FirstName r' = FirstName r \<and> LastName r' = LastName r
    \<and> UserID r' = json_userId jf \<and> Roles r' = json_roles jf
    \<and> (Event_Type event = OrgMemberAdded ext \<longrightarrow>
          OrgID r' = Event_AggregateID event \<and> CreationDate r' = Event_CreationDate event)
    \<and> (Event_Type event \<noteq> OrgMemberAdded ext \<longrightarrow>
          OrgID r' = OrgID r \<and> CreationDate r' = CreationDate r
          \<and> (jf = \<lparr>json_userId = UserID r, json_roles = Roles r\<rparr> \<longrightarrow>
                business_fields r' = business_fields r))"
proof (cases "Event_Type event = OrgMemberAdded ext")
  case True
  let ?r4 = "r\<lparr>Sequence := Event_Sequence event, ChangeDate := Event_CreationDate event,
               OrgID := Event_AggregateID event, CreationDate := Event_CreationDate event\<rparr>"
  have "AppendEvent ext r event = SetData ext ?r4 event"
    using True by (simp add: AppendEvent_def setRootData_def Let_def)
  also have "\<dots> = (Some (ThrowInternal (Some err) ''MODEL-lub6s'' ''Could not unmarshal data''),
      ?r4\<lparr>UserID := json_userId jf, Roles := json_roles jf\<rparr>)"
    using assms(2) by (intro SetData_failure) simp
  finally show ?thesis
    using assms(3) True by auto
next
  case False
  with assms(1) have changed: "Event_Type event = OrgMemberChanged ext" by simp
  let ?r2 = "r\<lparr>Sequence := Event_Sequence event, ChangeDate := Event_CreationDate event\<rparr>"
  have "AppendEvent ext r event = SetData ext ?r2 event"
    using False changed by (simp add: AppendEvent_def Let_def)
  also have "\<dots> = (Some (ThrowInternal (Some err) ''MODEL-lub6s'' ''Could not unmarshal data''),
      ?r2\<lparr>UserID := json_userId jf, Roles := json_roles jf\<rparr>)"
    using assms(2) by (intro SetData_failure) simp
  finally show ?thesis
    using assms(3) False by (auto simp: business_fields_def)
qed

theorem AppendEvent_decode_failure_witness:
  "(Event_Type (sample_event ''org.member.changed'') = OrgMemberAdded failing_external
      \<or> Event_Type (sample_event ''org.member.changed'') = OrgMemberChanged failing_external)
   \<and> json_Unmarshal failing_external (Event_Data (sample_event ''org.member.changed''))
        \<lparr>json_userId = UserID sample_view, json_roles = Roles sample_view\<rparr>
       = (Some ''unexpected end of JSON input'', \<lparr>json_userId = ''user-1'', json_roles = [''ORG_OWNER'']\<rparr>)
   \<and> AppendEvent failing_external sample_view (sample_event ''org.member.changed'')
       = (Some (ThrowInternal (Some ''unexpected end of JSON input'') ''MODEL-lub6s'' ''Could not unmarshal data''),
          sample_view\<lparr>Sequence := 9, ChangeDate := \<lparr>sec = 300, nsec = 5\<rparr>\<rparr>)
   \<and> business_fields (sample_view\<lparr>Sequence := 9, ChangeDate := \<lparr>sec = 300, nsec = 5\<rparr>\<rparr>)
       = business_fields sample_view"
  using AppendEvent_decode_failure [where ext = failing_external and r = sample_view
      and event = "sample_event ''org.member.changed''" and err = "''unexpected end of JSON input''"
      and jf = "\<lparr>json_userId = ''user-1'', json_roles = [''ORG_OWNER'']\<rparr>"
      and res = "fst (AppendEvent failing_external sample_view (sample_event ''org.member.changed''))"
      and r' = "snd (AppendEvent failing_external sample_view (sample_event ''org.member.changed''))"]
  by (simp add: view_defs AppendEvent_def SetData_def business_fields_def)

text \<open>
  An \<open>OrgMemberAdded\<close> event whose payload does not decode still binds the record to the
  event's aggregate: \<open>OrgID\<close> changes from \<open>org-0\<close> to \<open>org-1\<close>.
\<close>

theorem AppendEvent_business_fields_counterexample:
  "Event_Type (sample_event ''org.member.added'') = OrgMemberAdded failing_external
   \<and> fst (json_Unmarshal failing_external (Event_Data (sample_event ''org.member.added''))
        \<lparr>json_userId = UserID sample_view, json_roles = Roles sample_view\<rparr>)
       = Some ''unexpected end of JSON input''
   \<and> OrgID sample_view = ''org-0''
   \<and> OrgID (snd (AppendEvent failing_external sample_view (sample_event ''org.member.added''))) = ''org-1''
   \<and> business_fields (snd (AppendEvent failing_external sample_view (sample_event ''org.member.added'')))
       \<noteq> business_fields sample_view"
  by (simp add: view_defs AppendEvent_def SetData_def setRootData_def business_fields_def)

section \<open>The append-and-reduce protocol\<close>

text \<open>
  C6. When the filter returns an empty list of events, \<open>queryAndReduce\<close> returns \<open>nil\<close>
  and the model as it was, whatever the model's \<open>AppendEvents\<close> and \<open>Reduce\<close> would do
  (they are not called). A failing filter gives its error instead, so the two outcomes
  differ.
\<close>

theorem queryAndReduce_zero_results:
  "(filter_fn (Query impl wm) = Inr [] \<longrightarrow>
      queryAndReduce filter_fn (impl\<lparr>AppendEvents := a, Reduce := r\<rparr>) wm = (None, wm))
   \<and> (filter_fn (Query impl wm) = Inl err \<longrightarrow>
      queryAndReduce filter_fn (impl\<lparr>AppendEvents := a, Reduce := r\<rparr>) wm = (Some err, wm))"
  by (simp add: queryAndReduce_def)

theorem queryAndReduce_zero_results_witness:
  "queryAndReduce (\<lambda>q. Inr []) sample_impl (sample_fresh ''org-1'') = (None, sample_fresh ''org-1'')
   \<and> queryAndReduce (\<lambda>q. Inr [])
        (sample_impl\<lparr>AppendEvents := (\<lambda>events wm. wm\<lparr>sm_Added := True\<rparr>),
                     Reduce := (\<lambda>wm. (Some ''reduce failed'', wm\<lparr>sm_Added := True\<rparr>))\<rparr>)
        (sample_fresh ''org-1'') = (None, sample_fresh ''org-1'')
   \<and> queryAndReduce (\<lambda>q. Inl ''store down'') sample_impl (sample_fresh ''org-1'')
        = (Some ''store down'', sample_fresh ''org-1'')"
  using queryAndReduce_zero_results [where filter_fn = "\<lambda>q. Inr []" and impl = sample_impl
      and wm = "sample_fresh ''org-1''" and a = "AppendEvents sample_impl"
      and r = "Reduce sample_impl"]
    queryAndReduce_zero_results [where filter_fn = "\<lambda>q. Inr []" and impl = sample_impl
      and wm = "sample_fresh ''org-1''" and a = "\<lambda>events wm. wm\<lparr>sm_Added := True\<rparr>"
      and r = "\<lambda>wm. (Some ''reduce failed'', wm\<lparr>sm_Added := True\<rparr>)"]
    queryAndReduce_zero_results [where filter_fn = "\<lambda>q. Inl ''store down''" and impl = sample_impl
      and wm = "sample_fresh ''org-1''" and err = "''store down''"
      and a = "AppendEvents sample_impl" and r = "Reduce sample_impl"]
  by simp

text \<open>
  C5, as the code has it. When \<open>queryAndReduce\<close> returns \<open>nil\<close>, \<open>exists\<close> returns what
  the model's \<open>Exists()\<close> gives on the model left by the replay, with a \<open>nil\<close> error. When
  \<open>queryAndReduce\<close> returns an error, whether it comes from the filter or from \<open>Reduce\<close>,
  \<open>exists\<close> returns false with that same error, whatever \<open>Exists()\<close> gives on the model
  then. With no events for a model whose \<open>Exists()\<close> is false it returns false; after a
  replay whose \<open>Reduce\<close> succeeds and leaves a model whose \<open>Exists()\<close> is true it returns
  true.
\<close>

theorem exists_result:
  "(queryAndReduce filter_fn impl wm = (None, wm') \<longrightarrow>
      exists filter_fn impl wm = ((Exists impl wm', None), wm'))
   \<and> (queryAndReduce filter_fn impl wm = (Some err, wm') \<longrightarrow>
      exists filter_fn impl wm = ((False, Some err), wm'))
   \<and> (filter_fn (Query impl wm) = Inl err \<longrightarrow>
      exists filter_fn impl wm = ((False, Some err), wm))
   \<and> (filter_fn (Query impl wm) = Inr events \<and> events \<noteq> []
        \<and> Reduce impl (AppendEvents impl events wm) = (Some err, wm'') \<longrightarrow>
      exists filter_fn impl wm = ((False, Some err), wm''))
   \<and> (filter_fn (Query impl wm) = Inr [] \<and> \<not> Exists impl wm \<longrightarrow>
      exists filter_fn impl wm = ((False, None), wm))
   \<and> (filter_fn (Query impl wm) = Inr events \<and> events \<noteq> []
        \<and> Reduce impl (AppendEvents impl events wm) = (None, wm'') \<and> Exists impl wm'' \<longrightarrow>
      exists filter_fn impl wm = ((True, None), wm''))"
  by (auto simp: exists_def queryAndReduce_def)

theorem exists_result_witness:
  "exists (\<lambda>q. Inr []) sample_impl (sample_fresh ''org-1'') = ((False, None), sample_fresh ''org-1'')
   \<and> exists (\<lambda>q. Inr [SampleAdded ''org-1'']) sample_impl (sample_fresh ''org-1'')
       = ((True, None), (sample_fresh ''org-1'')\<lparr>sm_Added := True\<rparr>)
   \<and> exists (\<lambda>q. Inl ''store down'') sample_impl ((sample_fresh ''org-1'')\<lparr>sm_Added := True\<rparr>)
       = ((False, Some ''store down''), (sample_fresh ''org-1'')\<lparr>sm_Added := True\<rparr>)
   \<and> exists (\<lambda>q. Inr [SampleAdded ''org-1'']) sample_impl_reduce_fails (sample_fresh ''org-1'')
       = ((False, Some ''reduce failed''), (sample_fresh ''org-1'')\<lparr>sm_Added := True\<rparr>)"
  using exists_result [where filter_fn = "\<lambda>q. Inr []" and impl = sample_impl
      and wm = "sample_fresh ''org-1''" and wm' = "sample_fresh ''org-1''" and events = "[]"
      and wm'' = "sample_fresh ''org-1''" and err = "[]"]
    exists_result [where filter_fn = "\<lambda>q. Inr [SampleAdded ''org-1'']" and impl = sample_impl
      and wm = "sample_fresh ''org-1''" and wm' = "(sample_fresh ''org-1'')\<lparr>sm_Added := True\<rparr>"
      and events = "[SampleAdded ''org-1'']"
      and wm'' = "(sample_fresh ''org-1'')\<lparr>sm_Added := True\<rparr>" and err = "[]"]
    exists_result [where filter_fn = "\<lambda>q. Inl ''store down''" and impl = sample_impl
      and wm = "(sample_fresh ''org-1'')\<lparr>sm_Added := True\<rparr>"
      and wm' = "(sample_fresh ''org-1'')\<lparr>sm_Added := True\<rparr>" and events = "[]"
      and wm'' = "(sample_fresh ''org-1'')\<lparr>sm_Added := True\<rparr>" and err = "''store down''"]
    exists_result [where filter_fn = "\<lambda>q. Inr [SampleAdded ''org-1'']"
      and impl = sample_impl_reduce_fails
      and wm = "sample_fresh ''org-1''" and wm' = "(sample_fresh ''org-1'')\<lparr>sm_Added := True\<rparr>"
      and events = "[SampleAdded ''org-1'']"
      and wm'' = "(sample_fresh ''org-1'')\<lparr>sm_Added := True\<rparr>" and err = "''reduce failed''"]
  by (simp add: sample_impl_reduce_fails_def sample_impl_def sample_fresh_def queryAndReduce_def)

text \<open>
  A replay whose \<open>Reduce\<close> folds an "added" event and then fails: the model's \<open>Exists()\<close>
  is true afterwards, and \<open>exists\<close> returns false with the error.
\<close>

theorem exists_error_counterexample:
  "queryAndReduce (\<lambda>q. Inr [SampleAdded ''org-1'']) sample_impl_reduce_fails (sample_fresh ''org-1'')
       = (Some ''reduce failed'', (sample_fresh ''org-1'')\<lparr>sm_Added := True\<rparr>)
   \<and> Exists sample_impl_reduce_fails ((sample_fresh ''org-1'')\<lparr>sm_Added := True\<rparr>)
   \<and> exists (\<lambda>q. Inr [SampleAdded ''org-1'']) sample_impl_reduce_fails (sample_fresh ''org-1'')
       = ((False, Some ''reduce failed''), (sample_fresh ''org-1'')\<lparr>sm_Added := True\<rparr>)
   \<and> fst (fst (exists (\<lambda>q. Inr [SampleAdded ''org-1'']) sample_impl_reduce_fails
                  (sample_fresh ''org-1'')))
       \<noteq> Exists sample_impl_reduce_fails
           (snd (exists (\<lambda>q. Inr [SampleAdded ''org-1'']) sample_impl_reduce_fails
                   (sample_fresh ''org-1'')))"
  by (simp add: exists_def queryAndReduce_def sample_impl_reduce_fails_def sample_impl_def
      sample_fresh_def)

text \<open>
  C7. When \<open>Push\<close> returns an error, \<open>pushAppendAndReduce\<close> returns that very error and
  the object as it was, whatever the object's \<open>AppendEvents\<close> and \<open>Reduce\<close> would do (they
  are not called); the store is left in the state after that one call of \<open>Push\<close>.
\<close>

theorem pushAppendAndReduce_push_error:
  "Push store cmds = (Inl err, store') \<Longrightarrow>
     pushAppendAndReduce Push (impl\<lparr>AppendEvents := a, Reduce := r\<rparr>) store object cmds
       = ((Some err, object), store')"
  by (simp add: pushAppendAndReduce_def)

theorem pushAppendAndReduce_push_error_witness:
  "(\<lambda>(calls::nat) (cmds::Command list). (Inl ''conflict'' :: string + sample_wm_event list, Suc calls)) 0 []
      = (Inl ''conflict'', 1)
   \<and> pushAppendAndReduce (\<lambda>(calls::nat) (cmds::Command list). (Inl ''conflict'', Suc calls))
        sample_impl 0 (sample_fresh ''org-1'') []
      = ((Some ''conflict'', sample_fresh ''org-1''), 1)"
  using pushAppendAndReduce_push_error
    [where Push = "\<lambda>(calls::nat) (cmds::Command list). (Inl ''conflict'', Suc calls)"
       and store = 0 and cmds = "[]" and err = "''conflict''" and store' = 1
       and impl = sample_impl and a = "AppendEvents sample_impl" and r = "Reduce sample_impl"
       and object = "sample_fresh ''org-1''"]
  by simp

end
